theory Spec2Isabelle
  imports Main "HOL-Library.Word" "HOL-Library.AList"
begin

section \<open>Data model of provider_client.go\<close>

text \<open>
  Go's \<^verbatim>\<open>uint\<close> is modelled as a 64-bit word (addition wraps), \<^verbatim>\<open>[]byte\<close> and
  \<^verbatim>\<open>string\<close> as character lists, \<^verbatim>\<open>http.Header\<close> as an association list with
  distinct canonical keys, and a nil-able field as an \<open>option\<close>.
\<close>

type_synonym bytes = string
type_synonym uint = "64 word"
type_synonym Header = "(string \<times> string list) list"

definition DefaultUserAgent :: string where
  "DefaultUserAgent = ''vnpaycloud-console-gophercloud/v2.0.0''"

definition DefaultMaxBackoffRetries :: uint where
  "DefaultMaxBackoffRetries = 60"

definition applicationJSON :: string where
  "applicationJSON = ''application/json''"

text \<open>
  \<^verbatim>\<open>ErrUnexpectedResponseCode\<close>, as the composite literal of \<^verbatim>\<open>doRequest\<close> fills it.
\<close>

record ErrUnexpectedResponseCode =
  URL :: string
  Method :: string
  Expected :: "int list"
  Actual :: int
  Body :: bytes
  ResponseHeader :: Header

text \<open>
  Error values. \<open>ErrorString\<close> stands for \<^verbatim>\<open>errors.New\<close> and for every error that
  comes from outside (transport, JSON, seek, the hooks). The two composite errors carry
  exactly the fields that \<^verbatim>\<open>doRequest\<close> assigns after \<^verbatim>\<open>&ErrUnableToReauthenticate{}\<close>
  and \<^verbatim>\<open>&ErrErrorAfterReauthentication{}\<close>; every other field of those structs keeps
  its zero value.
\<close>

datatype error =
    ErrorString string
  | ErrUnexpectedResponse ErrUnexpectedResponseCode
  | ErrUnableToReauthenticate (ErrOriginal: error) (ErrReauth: error)
  | ErrErrorAfterReauthentication (ErrOriginal: error)

text \<open>
  \<^verbatim>\<open>AuthResult\<close> is an interface; the only method the client calls is
  \<^verbatim>\<open>ExtractTokenID() (string, error)\<close>.
\<close>

record AuthResult =
  ident :: nat
  ExtractTokenID :: "string \<times> error option"

text \<open>
  The client. A function-valued field (\<^verbatim>\<open>ReauthFunc\<close>, \<^verbatim>\<open>RetryBackoffFunc\<close>,
  \<^verbatim>\<open>RetryFunc\<close>) is \<open>True\<close> when it is non-nil: what the function returns when it is
  called is an answer of the environment. \<open>mut\<close> and \<open>reauthmut\<close> say whether the
  lock is installed.
\<close>

record ProviderClient =
  TokenID :: string
  UserAgent :: "string list"
  ReauthFunc :: bool
  Throwaway :: bool
  RetryBackoffFunc :: bool
  MaxBackoffRetries :: uint
  RetryFunc :: bool
  mut :: bool
  reauthmut :: bool
  authResult :: "AuthResult option"

section \<open>User agent\<close>

fun strings_Join :: "string list \<Rightarrow> string \<Rightarrow> string" where
  "strings_Join [] sep = []"
| "strings_Join [x] sep = x"
| "strings_Join (x # y # ys) sep = x @ sep @ strings_Join (y # ys) sep"

definition Prepend :: "string list \<Rightarrow> string list \<Rightarrow> string list" where
  "Prepend ua s = s @ ua"

definition Join :: "string list \<Rightarrow> string" where
  "Join ua = strings_Join (ua @ [DefaultUserAgent]) '' ''"

section \<open>Token store\<close>

definition UseTokenLock :: "ProviderClient \<Rightarrow> ProviderClient" where
  "UseTokenLock client = client\<lparr>mut := True, reauthmut := True\<rparr>"

definition GetAuthResult :: "ProviderClient \<Rightarrow> AuthResult option" where
  "GetAuthResult client = authResult client"

definition Token :: "ProviderClient \<Rightarrow> string" where
  "Token client = TokenID client"

definition SetToken :: "ProviderClient \<Rightarrow> string \<Rightarrow> ProviderClient" where
  "SetToken client t = client\<lparr>TokenID := t, authResult := None\<rparr>"

text \<open>
  \<^verbatim>\<open>SetTokenAndAuthResult\<close>: the returned pair is the error and the client after the
  call. The early \<^verbatim>\<open>return err\<close> comes before either field is written.
\<close>

definition SetTokenAndAuthResult ::
  "ProviderClient \<Rightarrow> AuthResult option \<Rightarrow> error option \<times> ProviderClient" where
  "SetTokenAndAuthResult client r =
     (case r of
        None \<Rightarrow> (None, client\<lparr>TokenID := [], authResult := None\<rparr>)
      | Some a \<Rightarrow>
          (case ExtractTokenID a of
             (tokenID, Some err) \<Rightarrow> (Some err, client)
           | (tokenID, None) \<Rightarrow> (None, client\<lparr>TokenID := tokenID, authResult := Some a\<rparr>)))"

definition CopyTokenFrom :: "ProviderClient \<Rightarrow> ProviderClient \<Rightarrow> ProviderClient" where
  "CopyTokenFrom client other =
     client\<lparr>TokenID := TokenID other, authResult := authResult other\<rparr>"

definition IsThrowaway :: "ProviderClient \<Rightarrow> bool" where
  "IsThrowaway client = Throwaway client"

definition SetThrowaway :: "ProviderClient \<Rightarrow> bool \<Rightarrow> ProviderClient" where
  "SetThrowaway client v = client\<lparr>Throwaway := v\<rparr>"

section \<open>HTTP headers\<close>

text \<open>
  \<^verbatim>\<open>http.Header\<close> with the three methods \<^verbatim>\<open>doRequest\<close> uses. Each of them
  canonicalises the key first (\<^verbatim>\<open>textproto.CanonicalMIMEHeaderKey\<close>): a key that holds
  a byte outside the token characters is left as it is, any other key gets an upper-case
  letter first and after every dash and lower-case letters elsewhere.
\<close>

definition validHeaderFieldByte :: "char \<Rightarrow> bool" where
  "validHeaderFieldByte c =
     (let n = (of_char c :: nat) in
        (48 \<le> n \<and> n \<le> 57) \<or> (65 \<le> n \<and> n \<le> 90) \<or> (97 \<le> n \<and> n \<le> 122) \<or>
        List.member [33, 35, 36, 37, 38, 39, 42, 43, 45, 46, 94, 95, 96, 124, 126] n)"

fun canonicalMIMEHeaderKey :: "bool \<Rightarrow> string \<Rightarrow> string" where
  "canonicalMIMEHeaderKey upper [] = []"
| "canonicalMIMEHeaderKey upper (c # cs) =
     (let n = (of_char c :: nat);
          c' = (if upper \<and> 97 \<le> n \<and> n \<le> 122 then char_of (n - 32)
                else if \<not> upper \<and> 65 \<le> n \<and> n \<le> 90 then char_of (n + 32)
                else c)
      in c' # canonicalMIMEHeaderKey (c' = CHR ''-'') cs)"

definition CanonicalMIMEHeaderKey :: "string \<Rightarrow> string" where
  "CanonicalMIMEHeaderKey s =
     (if list_all validHeaderFieldByte s then canonicalMIMEHeaderKey True s else s)"

definition Header_Set :: "string \<Rightarrow> string \<Rightarrow> Header \<Rightarrow> Header" where
  "Header_Set key v h = AList.update (CanonicalMIMEHeaderKey key) [v] h"

definition Header_Del :: "string \<Rightarrow> Header \<Rightarrow> Header" where
  "Header_Del key h = AList.delete (CanonicalMIMEHeaderKey key) h"

definition Header_Get :: "string \<Rightarrow> Header \<Rightarrow> string" where
  "Header_Get key h =
     (case map_of h (CanonicalMIMEHeaderKey key) of
        None \<Rightarrow> []
      | Some [] \<Rightarrow> []
      | Some (v # vs) \<Rightarrow> v)"

text \<open>
  \<^verbatim>\<open>AuthenticatedHeaders\<close>, as one caller sees it once any wait on a running
  reauthentication is over (the wait itself is part of the coordinator model below).
  \<open>None\<close> is the nil map.
\<close>

definition AuthenticatedHeaders :: "ProviderClient \<Rightarrow> (string \<times> string) list option" where
  "AuthenticatedHeaders client =
     (if IsThrowaway client then None
      else (let t = Token client in
            if t = [] then None else Some [(''X-Auth-Token'', t)]))"

section \<open>Requests\<close>

text \<open>
  A raw body is an \<^verbatim>\<open>io.Reader\<close>: its content, the offset the next read starts at,
  and whether the value also implements \<^verbatim>\<open>io.Seeker\<close>. A JSON body is represented by
  what \<^verbatim>\<open>json.Marshal\<close> returns for it; \<open>JSONResponse\<close> says whether a decode target
  was given. \<open>MoreHeaders\<close> lists the map's entries in the order the \<^verbatim>\<open>range\<close> loop
  visits them.
\<close>

record Reader =
  data :: bytes
  off :: nat
  seeker :: bool

datatype JSONValue = JSONValue (json_Marshal: "error + bytes")

record RequestOpts =
  JSONBody :: "JSONValue option"
  RawBody :: "Reader option"
  JSONResponse :: bool
  OkCodes :: "int list option"
  MoreHeaders :: "(string \<times> string) list option"
  OmitHeaders :: "string list"
  KeepResponseBody :: bool

record requestState =
  hasReauthenticated :: bool
  retries :: uint

text \<open>
  The request handed to the transport (\<open>req_Body\<close> is what the body reader still holds
  at that moment) and the response it returns.
\<close>

record http_Request =
  req_Method :: string
  req_URL :: string
  req_Header :: Header
  req_Body :: "bytes option"

record http_Response =
  StatusCode :: int
  resp_Header :: Header
  resp_Body :: bytes

text \<open>
  Everything outside the client answers through a script: one \<open>round\<close> per activation
  of \<^verbatim>\<open>doRequest\<close>, holding the result of each outside call that activation may make.
  \<open>env_ongoing\<close> is what \<^verbatim>\<open>Reauthenticate\<close> finds in \<^verbatim>\<open>reauthmut.ongoing\<close>: \<open>None\<close>
  when no attempt is running, otherwise the error which that attempt's owner publishes.
  \<open>env_token\<close> is the token written to the client while \<^verbatim>\<open>Reauthenticate\<close> ran, if
  one was. \<open>env_read\<close> is the number of bytes the transport reads from a raw body.
\<close>

record round =
  env_NewRequest :: "error option"
  env_Do :: "error + http_Response"
  env_read :: nat
  env_drain :: "error option"
  env_Decode :: "error option"
  env_ongoing :: "error option option"
  env_ReauthFunc :: "error option"
  env_token :: "string option"
  env_Seek :: "error option"
  env_Backoff :: "error option"
  env_Retry :: "error option"

text \<open>The calls that leave the client, in the order they are made.\<close>

datatype event =
    Ev_Do http_Request "error + http_Response"
  | Ev_Reauthenticate string
  | Ev_ReauthFunc
  | Ev_Seek
  | Ev_RetryBackoffFunc ErrUnexpectedResponseCode "error option" uint
  | Ev_RetryFunc error uint

text \<open>
  What a call returns: Go's pair \<^verbatim>\<open>(*http.Response, error)\<close>, or \<open>Starved\<close> when the
  script has no round left for the next activation.
\<close>

datatype outcome = Return "http_Response option" "error option" | Starved

record exec =
  ret :: outcome
  events :: "event list"
  client_after :: ProviderClient
  options_after :: RequestOpts
  state_after :: requestState

definition finish ::
  "outcome \<Rightarrow> event list \<Rightarrow> ProviderClient \<Rightarrow> RequestOpts \<Rightarrow> requestState \<Rightarrow> exec" where
  "finish x evs client options state =
     \<lparr>ret = x, events = evs, client_after = client, options_after = options,
      state_after = state\<rparr>"

definition after :: "event list \<Rightarrow> exec \<Rightarrow> exec" where
  "after evs x = x\<lparr>events := evs @ events x\<rparr>"

definition defaultOkCodes :: "string \<Rightarrow> int list" where
  "defaultOkCodes method =
     (if method = ''GET'' \<or> method = ''HEAD'' then [200]
      else if method = ''POST'' then [201, 202]
      else if method = ''PUT'' then [201, 202]
      else if method = ''PATCH'' then [200, 202, 204]
      else if method = ''DELETE'' then [202, 204]
      else [])"

text \<open>Lines 390 to 414: the headers of the outbound request, in the order they are set.\<close>

definition populate_headers :: "ProviderClient \<Rightarrow> RequestOpts \<Rightarrow> string option \<Rightarrow> Header" where
  "populate_headers client options contentType =
     (let h = (case contentType of None \<Rightarrow> [] | Some ct \<Rightarrow> Header_Set ''Content-Type'' ct []);
          h = Header_Set ''Accept'' applicationJSON h;
          h = Header_Set ''User-Agent'' (Join (UserAgent client)) h;
          h = (case MoreHeaders options of
                 None \<Rightarrow> h
               | Some m \<Rightarrow> foldl (\<lambda>h (k, v). Header_Set k v h) h m);
          h = foldl (\<lambda>h v. Header_Del v h) h (OmitHeaders options);
          h = foldl (\<lambda>h (k, v). Header_Set k v h) h
                (case AuthenticatedHeaders client of None \<Rightarrow> [] | Some m \<Rightarrow> m)
      in h)"

text \<open>Lines 357 to 414: the request as built, or the error returned before any dispatch.\<close>

definition newRequest ::
  "ProviderClient \<Rightarrow> string \<Rightarrow> string \<Rightarrow> RequestOpts \<Rightarrow> round \<Rightarrow> error + http_Request" where
  "newRequest client method url options r =
     (if JSONBody options \<noteq> None \<and> RawBody options \<noteq> None
      then Inl (ErrorString ''please provide only one of JSONBody or RawBody to gophercloud.Request()'')
      else
        (case (case JSONBody options of
                 None \<Rightarrow> Inr (None, None)
               | Some j \<Rightarrow>
                   (case json_Marshal j of
                      Inl err \<Rightarrow> Inl err
                    | Inr rendered \<Rightarrow> Inr (Some rendered, Some applicationJSON))) of
           Inl err \<Rightarrow> Inl err
         | Inr (body, contentType) \<Rightarrow>
             if KeepResponseBody options \<and> JSONResponse options
             then Inl (ErrorString ''cannot use KeepResponseBody when JSONResponse is not nil'')
             else
               (let body = (case RawBody options of
                              None \<Rightarrow> body
                            | Some rd \<Rightarrow> Some (drop (off rd) (data rd)))
                in (case env_NewRequest r of
                      Some err \<Rightarrow> Inl err
                    | None \<Rightarrow>
                        Inr \<lparr>req_Method = method, req_URL = url,
                             req_Header = populate_headers client options contentType,
                             req_Body = body\<rparr>))))"

text \<open>The transport reads from a raw body: the reader's offset moves on.\<close>

definition consume :: "nat \<Rightarrow> Reader \<Rightarrow> Reader" where
  "consume n rd = rd\<lparr>off := min (length (data rd)) (off rd + n)\<rparr>"

text \<open>
  \<^verbatim>\<open>Reauthenticate\<close>, as one caller sees it. With the lock installed the caller either
  finds an attempt running and returns what its owner publishes, or owns the attempt and
  calls \<^verbatim>\<open>ReauthFunc\<close> when the previous token is empty or still the client's token.
  The result is the error, the client after the call and the calls made.
\<close>

definition install :: "string option \<Rightarrow> ProviderClient \<Rightarrow> ProviderClient" where
  "install t client = (case t of None \<Rightarrow> client | Some tok \<Rightarrow> client\<lparr>TokenID := tok\<rparr>)"

definition Reauthenticate ::
  "ProviderClient \<Rightarrow> string \<Rightarrow> round \<Rightarrow> error option \<times> ProviderClient \<times> event list" where
  "Reauthenticate client previousToken r =
     (if \<not> ReauthFunc client then (None, client, [])
      else if \<not> reauthmut client
      then (env_ReauthFunc r, install (env_token r) client, [Ev_ReauthFunc])
      else
        (case env_ongoing r of
           Some published \<Rightarrow> (published, install (env_token r) client, [])
         | None \<Rightarrow>
             if previousToken = [] \<or> TokenID client = previousToken
             then (env_ReauthFunc r, install (env_token r) client, [Ev_ReauthFunc])
             else (None, client, [])))"

text \<open>Lines 471 to 477: the raw body is rewound when it is an \<^verbatim>\<open>io.Seeker\<close>.\<close>

definition rewind :: "RequestOpts \<Rightarrow> round \<Rightarrow> error + RequestOpts \<times> event list" where
  "rewind options r =
     (case RawBody options of
        None \<Rightarrow> Inr (options, [])
      | Some rd \<Rightarrow>
          if seeker rd
          then (case env_Seek r of
                  Some err \<Rightarrow> Inl err
                | None \<Rightarrow> Inr (options\<lparr>RawBody := Some (rd\<lparr>off := 0\<rparr>)\<rparr>, [Ev_Seek]))
          else Inr (options, []))"

text \<open>
  Lines 481 to 490: the type switch on the error of the retried request. Both of its
  branches build the same value.
\<close>

definition after_reauthentication :: "error \<Rightarrow> error" where
  "after_reauthentication e =
     (case e of
        ErrUnexpectedResponse c \<Rightarrow> ErrErrorAfterReauthentication e
      | _ \<Rightarrow> ErrErrorAfterReauthentication e)"

definition maxTries :: "ProviderClient \<Rightarrow> uint" where
  "maxTries client =
     (if MaxBackoffRetries client = 0 then DefaultMaxBackoffRetries
      else MaxBackoffRetries client)"

text \<open>Lines 434 to 447: the accepted codes and the test of the status against them.\<close>

definition okCodes :: "string \<Rightarrow> RequestOpts \<Rightarrow> int list" where
  "okCodes method options =
     (case OkCodes options of None \<Rightarrow> defaultOkCodes method | Some c \<Rightarrow> c)"

definition ok :: "int list \<Rightarrow> http_Response \<Rightarrow> bool" where
  "ok okc resp = List.member okc (StatusCode resp)"

text \<open>Lines 452 to 459: the error value for a status that is not accepted.\<close>

definition respErr :: "string \<Rightarrow> string \<Rightarrow> int list \<Rightarrow> http_Response \<Rightarrow> ErrUnexpectedResponseCode" where
  "respErr method url okc resp =
     \<lparr>URL = url, Method = method, Expected = okc,
      Actual = StatusCode resp, Body = resp_Body resp, ResponseHeader = resp_Header resp\<rparr>"

text \<open>
  The guards of the two cases of the switch on the status (lines 462 to 463 and 494 to
  500). A status for which the guard of its case fails leaves the switch.
\<close>

definition unauthorized :: "ProviderClient \<Rightarrow> requestState \<Rightarrow> http_Response \<Rightarrow> bool" where
  "unauthorized client state resp =
     (StatusCode resp = 401 \<and> ReauthFunc client \<and> \<not> hasReauthenticated state)"

definition rate_limited :: "ProviderClient \<Rightarrow> requestState \<Rightarrow> http_Response \<Rightarrow> bool" where
  "rate_limited client state resp =
     ((StatusCode resp = 429 \<or> StatusCode resp = 498) \<and>
      RetryBackoffFunc client \<and> retries state < maxTries client)"

text \<open>The raw body after \<^verbatim>\<open>client.HTTPClient.Do(req)\<close> has read from it.\<close>

definition dispatched :: "RequestOpts \<Rightarrow> round \<Rightarrow> RequestOpts" where
  "dispatched options r =
     options\<lparr>RawBody := map_option (consume (env_read r)) (RawBody options)\<rparr>"

text \<open>
  \<^verbatim>\<open>doRequest\<close>. Each activation takes one round of the script; a retry is the
  recursive call on the rest of the script, with the client, the raw body and the
  request state as the activation left them.
\<close>

fun doRequest ::
  "ProviderClient \<Rightarrow> string \<Rightarrow> string \<Rightarrow> RequestOpts \<Rightarrow> requestState \<Rightarrow> round list \<Rightarrow> exec" where
  "doRequest client method url options state [] = finish Starved [] client options state"
| "doRequest client method url options state (r # rs) =
     (case newRequest client method url options r of
        Inl e \<Rightarrow> finish (Return None (Some e)) [] client options state
      | Inr req \<Rightarrow>
          (let prereqtok = Header_Get ''X-Auth-Token'' (req_Header req);
               ev = Ev_Do req (env_Do r);
               okc = okCodes method options;
               options = dispatched options r
           in
           (case env_Do r of
              Inl err \<Rightarrow>
                if RetryFunc client then
                  (let state = state\<lparr>retries := retries state + 1\<rparr>;
                       evs = [ev, Ev_RetryFunc err (retries state)]
                   in (case env_Retry r of
                         Some e \<Rightarrow> finish (Return None (Some e)) evs client options state
                       | None \<Rightarrow> after evs (doRequest client method url options state rs)))
                else finish (Return None (Some err)) [ev] client options state
            | Inr resp \<Rightarrow>
                if \<not> ok okc resp then
                  (if unauthorized client state resp then
                     (case Reauthenticate client prereqtok r of
                        (err, client, called) \<Rightarrow>
                          (let evs = [ev, Ev_Reauthenticate prereqtok] @ called
                           in (case err of
                                 Some e \<Rightarrow>
                                   finish (Return None (Some (ErrUnableToReauthenticate
                                             (ErrUnexpectedResponse (respErr method url okc resp)) e)))
                                     evs client options state
                               | None \<Rightarrow>
                                   (case rewind options r of
                                      Inl e \<Rightarrow>
                                        finish (Return None (Some e)) (evs @ [Ev_Seek])
                                          client options state
                                    | Inr (options, sought) \<Rightarrow>
                                        (let state = state\<lparr>hasReauthenticated := True\<rparr>;
                                             x = doRequest client method url options state rs
                                         in after (evs @ sought)
                                              (case ret x of
                                                 Return resp' (Some e) \<Rightarrow>
                                                   x\<lparr>ret := Return None
                                                              (Some (after_reauthentication e))\<rparr>
                                               | Return resp' None \<Rightarrow> x
                                               | Starved \<Rightarrow> x))))))
                   else if rate_limited client state resp then
                     (let state = state\<lparr>retries := retries state + 1\<rparr>;
                          evs = [ev, Ev_RetryBackoffFunc (respErr method url okc resp) None (retries state)]
                      in (case env_Backoff r of
                            Some e \<Rightarrow> finish (Return (Some resp) (Some e)) evs client options state
                          | None \<Rightarrow> after evs (doRequest client method url options state rs)))
                   else
                     (let err = ErrUnexpectedResponse (respErr method url okc resp)
                      in
                      if RetryFunc client then
                        (let state = state\<lparr>retries := retries state + 1\<rparr>;
                             evs = [ev, Ev_RetryFunc err (retries state)]
                         in (case env_Retry r of
                               Some e \<Rightarrow>
                                 finish (Return (Some resp) (Some e)) evs client options state
                             | None \<Rightarrow>
                                 after evs (doRequest client method url options state rs)))
                      else finish (Return (Some resp) (Some err)) [ev] client options state))
                else if JSONResponse options then
                  (if StatusCode resp = 204
                   then finish (Return (Some resp) (env_drain r)) [ev] client options state
                   else
                     (case env_Decode r of
                        Some err \<Rightarrow>
                          if RetryFunc client then
                            (let state = state\<lparr>retries := retries state + 1\<rparr>;
                                 evs = [ev, Ev_RetryFunc err (retries state)]
                             in (case env_Retry r of
                                   Some e \<Rightarrow>
                                     finish (Return (Some resp) (Some e)) evs client options state
                                 | None \<Rightarrow>
                                     after evs (doRequest client method url options state rs)))
                          else finish (Return None (Some err)) [ev] client options state
                      | None \<Rightarrow> finish (Return (Some resp) None) [ev] client options state))
                else if \<not> KeepResponseBody options then
                  (case env_drain r of
                     Some e \<Rightarrow> finish (Return None (Some e)) [ev] client options state
                   | None \<Rightarrow> finish (Return (Some resp) None) [ev] client options state)
                else finish (Return (Some resp) None) [ev] client options state)))"

text \<open>\<^verbatim>\<open>Request\<close>: a logical call starts with a fresh request state.\<close>

definition Request ::
  "ProviderClient \<Rightarrow> string \<Rightarrow> string \<Rightarrow> RequestOpts \<Rightarrow> round list \<Rightarrow> exec" where
  "Request client method url options script =
     doRequest client method url options \<lparr>hasReauthenticated = False, retries = 0\<rparr> script"

section \<open>One activation of doRequest\<close>

text \<open>
  The same function, read one activation at a time: an activation either returns
  (\<open>Done\<close>) or calls \<^verbatim>\<open>doRequest\<close> again (\<open>Again\<close>, with the calls it made, the client,
  the options and the request state it passes on, and whether the result of the retry
  goes through the type switch of lines 481 to 490). Lemma \<open>doRequest_Cons\<close> below
  proves that \<open>doRequest\<close> is this step, iterated.
\<close>

datatype step = Done exec | Again "event list" ProviderClient RequestOpts requestState bool

definition generic_retry ::
  "ProviderClient \<Rightarrow> RequestOpts \<Rightarrow> requestState \<Rightarrow> event \<Rightarrow> error \<Rightarrow> http_Response option \<Rightarrow> round \<Rightarrow> step" where
  "generic_retry client options state ev err resp r =
     (case env_Retry r of
        Some e \<Rightarrow>
          Done (finish (Return resp (Some e)) [ev, Ev_RetryFunc err (retries state + 1)]
                  client options (state\<lparr>retries := retries state + 1\<rparr>))
      | None \<Rightarrow>
          Again [ev, Ev_RetryFunc err (retries state + 1)] client options
            (state\<lparr>retries := retries state + 1\<rparr>) False)"

definition on_unauthorized ::
  "ProviderClient \<Rightarrow> RequestOpts \<Rightarrow> requestState \<Rightarrow> event \<Rightarrow> string \<Rightarrow> ErrUnexpectedResponseCode \<Rightarrow> round \<Rightarrow> step" where
  "on_unauthorized client options state ev prereqtok rerr r =
     (case Reauthenticate client prereqtok r of
        (Some e, client', called) \<Rightarrow>
          Done (finish (Return None (Some (ErrUnableToReauthenticate (ErrUnexpectedResponse rerr) e)))
                  ([ev, Ev_Reauthenticate prereqtok] @ called) client' options state)
      | (None, client', called) \<Rightarrow>
          (case rewind options r of
             Inl e \<Rightarrow>
               Done (finish (Return None (Some e)) ([ev, Ev_Reauthenticate prereqtok] @ called @ [Ev_Seek])
                       client' options state)
           | Inr (options', sought) \<Rightarrow>
               Again ([ev, Ev_Reauthenticate prereqtok] @ called @ sought) client' options'
                 (state\<lparr>hasReauthenticated := True\<rparr>) True))"

definition on_rate_limited ::
  "ProviderClient \<Rightarrow> RequestOpts \<Rightarrow> requestState \<Rightarrow> event \<Rightarrow> ErrUnexpectedResponseCode \<Rightarrow> http_Response \<Rightarrow> round \<Rightarrow> step" where
  "on_rate_limited client options state ev rerr resp r =
     (case env_Backoff r of
        Some e \<Rightarrow>
          Done (finish (Return (Some resp) (Some e))
                  [ev, Ev_RetryBackoffFunc rerr None (retries state + 1)]
                  client options (state\<lparr>retries := retries state + 1\<rparr>))
      | None \<Rightarrow>
          Again [ev, Ev_RetryBackoffFunc rerr None (retries state + 1)] client options
            (state\<lparr>retries := retries state + 1\<rparr>) False)"

definition on_failure ::
  "ProviderClient \<Rightarrow> RequestOpts \<Rightarrow> requestState \<Rightarrow> event \<Rightarrow> string \<Rightarrow> ErrUnexpectedResponseCode \<Rightarrow> http_Response \<Rightarrow> round \<Rightarrow> step" where
  "on_failure client options state ev prereqtok rerr resp r =
     (if unauthorized client state resp
      then on_unauthorized client options state ev prereqtok rerr r
      else if rate_limited client state resp
      then on_rate_limited client options state ev rerr resp r
      else if RetryFunc client
      then generic_retry client options state ev (ErrUnexpectedResponse rerr) (Some resp) r
      else Done (finish (Return (Some resp) (Some (ErrUnexpectedResponse rerr))) [ev]
                   client options state))"

definition on_success ::
  "ProviderClient \<Rightarrow> RequestOpts \<Rightarrow> requestState \<Rightarrow> event \<Rightarrow> http_Response \<Rightarrow> round \<Rightarrow> step" where
  "on_success client options state ev resp r =
     (if JSONResponse options then
        (if StatusCode resp = 204
         then Done (finish (Return (Some resp) (env_drain r)) [ev] client options state)
         else
           (case env_Decode r of
              Some err \<Rightarrow>
                if RetryFunc client
                then generic_retry client options state ev err (Some resp) r
                else Done (finish (Return None (Some err)) [ev] client options state)
            | None \<Rightarrow> Done (finish (Return (Some resp) None) [ev] client options state)))
      else if \<not> KeepResponseBody options then
        (case env_drain r of
           Some e \<Rightarrow> Done (finish (Return None (Some e)) [ev] client options state)
         | None \<Rightarrow> Done (finish (Return (Some resp) None) [ev] client options state))
      else Done (finish (Return (Some resp) None) [ev] client options state))"

definition attempt ::
  "ProviderClient \<Rightarrow> string \<Rightarrow> string \<Rightarrow> RequestOpts \<Rightarrow> requestState \<Rightarrow> round \<Rightarrow> step" where
  "attempt client method url options state r =
     (case newRequest client method url options r of
        Inl e \<Rightarrow> Done (finish (Return None (Some e)) [] client options state)
      | Inr req \<Rightarrow>
          (case env_Do r of
             Inl err \<Rightarrow>
               if RetryFunc client
               then generic_retry client (dispatched options r) state (Ev_Do req (env_Do r)) err None r
               else Done (finish (Return None (Some err)) [Ev_Do req (env_Do r)] client
                            (dispatched options r) state)
           | Inr resp \<Rightarrow>
               if \<not> ok (okCodes method options) resp
               then on_failure client (dispatched options r) state (Ev_Do req (env_Do r))
                      (Header_Get ''X-Auth-Token'' (req_Header req))
                      (respErr method url (okCodes method options) resp) resp r
               else on_success client (dispatched options r) state (Ev_Do req (env_Do r)) resp r))"

definition wrapped :: "bool \<Rightarrow> exec \<Rightarrow> exec" where
  "wrapped w x =
     (if w then
        (case ret x of
           Return resp' (Some e) \<Rightarrow> x\<lparr>ret := Return None (Some (after_reauthentication e))\<rparr>
         | Return resp' None \<Rightarrow> x
         | Starved \<Rightarrow> x)
      else x)"

section \<open>Observations on the calls of a run\<close>

fun is_Reauthenticate :: "event \<Rightarrow> bool" where
  "is_Reauthenticate (Ev_Reauthenticate t) = True"
| "is_Reauthenticate ev = False"

fun is_Backoff :: "event \<Rightarrow> bool" where
  "is_Backoff (Ev_RetryBackoffFunc c e n) = True"
| "is_Backoff ev = False"

fun is_Do :: "event \<Rightarrow> bool" where
  "is_Do (Ev_Do req x) = True"
| "is_Do ev = False"

definition reauthentications :: "event list \<Rightarrow> nat" where
  "reauthentications evs = length (filter is_Reauthenticate evs)"

definition backoffs :: "event list \<Rightarrow> nat" where
  "backoffs evs = length (filter is_Backoff evs)"

definition dispatches :: "event list \<Rightarrow> nat" where
  "dispatches evs = length (filter is_Do evs)"

text \<open>The requests dispatched after the first call of \<^verbatim>\<open>Reauthenticate\<close>.\<close>

definition dispatches_after_reauthentication :: "event list \<Rightarrow> nat" where
  "dispatches_after_reauthentication evs =
     dispatches (dropWhile (\<lambda>ev. \<not> is_Reauthenticate ev) evs)"

text \<open>An error value \<open>e\<close> carries \<open>x\<close> when \<open>x\<close> is \<open>e\<close> or is reached from \<open>e\<close> through the
  error fields of the composite errors.\<close>

fun carries :: "error \<Rightarrow> error \<Rightarrow> bool" where
  "carries (ErrorString s) x = (x = ErrorString s)"
| "carries (ErrUnexpectedResponse c) x = (x = ErrUnexpectedResponse c)"
| "carries (ErrUnableToReauthenticate a b) x =
     (x = ErrUnableToReauthenticate a b \<or> carries a x \<or> carries b x)"
| "carries (ErrErrorAfterReauthentication a) x =
     (x = ErrErrorAfterReauthentication a \<or> carries a x)"

text \<open>A response that the switch treats as rate limiting: status 429 or 498, not accepted.\<close>

fun rate_limit_response :: "int list \<Rightarrow> event \<Rightarrow> bool" where
  "rate_limit_response okc (Ev_Do req (Inr resp)) =
     ((StatusCode resp = 429 \<or> StatusCode resp = 498) \<and> \<not> ok okc resp)"
| "rate_limit_response okc ev = False"

text \<open>The first rate-limit response of a run, if there is one, is followed at once by a
  call of the backoff function.\<close>

fun first_rate_limit_backed_off :: "int list \<Rightarrow> event list \<Rightarrow> bool" where
  "first_rate_limit_backed_off okc [] = True"
| "first_rate_limit_backed_off okc (ev # evs) =
     (if rate_limit_response okc ev
      then (case evs of Ev_RetryBackoffFunc c e n # evs' \<Rightarrow> True | _ \<Rightarrow> False)
      else first_rate_limit_backed_off okc evs)"

section \<open>Sample inputs\<close>

text \<open>
  Concrete inputs on which the theorems below are instantiated: a client with a token,
  both locks and all three hooks but \<^verbatim>\<open>RetryFunc\<close>; options with no body; a round in
  which the server answers with a given status and every other outside call succeeds
  (a reauthentication installs the token \<open>''fresh''\<close>); a round in which the transport
  fails.
\<close>

definition sample_client :: ProviderClient where
  "sample_client =
     \<lparr>TokenID = ''stale'', UserAgent = [], ReauthFunc = True, Throwaway = False,
      RetryBackoffFunc = True, MaxBackoffRetries = 2, RetryFunc = False, mut = True,
      reauthmut = True, authResult = None\<rparr>"

definition sample_options :: RequestOpts where
  "sample_options =
     \<lparr>JSONBody = None, RawBody = None, JSONResponse = False, OkCodes = None,
      MoreHeaders = None, OmitHeaders = [], KeepResponseBody = False\<rparr>"

definition answer :: "int \<Rightarrow> bytes \<Rightarrow> round" where
  "answer status body =
     \<lparr>env_NewRequest = None,
      env_Do = Inr \<lparr>StatusCode = status, resp_Header = [], resp_Body = body\<rparr>,
      env_read = 1000, env_drain = None, env_Decode = None, env_ongoing = None,
      env_ReauthFunc = None, env_token = Some ''fresh'', env_Seek = None,
      env_Backoff = None, env_Retry = None\<rparr>"

definition transport_failure :: round where
  "transport_failure = (answer 0 [])\<lparr>env_Do := Inl (ErrorString ''connection refused'')\<rparr>"

definition unauthorized_401 :: ErrUnexpectedResponseCode where
  "unauthorized_401 =
     \<lparr>URL = ''/servers'', Method = ''GET'', Expected = [200], Actual = 401,
      Body = ''token expired'', ResponseHeader = []\<rparr>"

definition failure_500 :: ErrUnexpectedResponseCode where
  "failure_500 =
     \<lparr>URL = ''/servers'', Method = ''GET'', Expected = [200], Actual = 500,
      Body = ''boom'', ResponseHeader = []\<rparr>"

chapter \<open>Properties\<close>

section \<open>Claims about the token store\<close>

text \<open>
  Claim C10. \<^verbatim>\<open>SetTokenAndAuthResult\<close> is atomic on error: for a non-nil result
  whose \<^verbatim>\<open>ExtractTokenID\<close> returns an error, the call returns that error and the
  client (token and cached result) is unchanged; when no error is returned, the token
  and the cached result are replaced together, by the extracted token and the result
  (by the empty token and nil for a nil result).
\<close>

theorem SetTokenAndAuthResult_atomic:
  "(snd (ExtractTokenID a) = Some e \<longrightarrow>
      SetTokenAndAuthResult client (Some a) = (Some e, client)) \<and>
   (snd (ExtractTokenID a) = None \<longrightarrow>
      SetTokenAndAuthResult client (Some a) =
        (None, client\<lparr>TokenID := fst (ExtractTokenID a), authResult := Some a\<rparr>)) \<and>
   SetTokenAndAuthResult client None = (None, client\<lparr>TokenID := [], authResult := None\<rparr>)"
  by (simp add: SetTokenAndAuthResult_def split: prod.splits option.splits)

theorem SetTokenAndAuthResult_atomic_witness:
  "SetTokenAndAuthResult
     \<lparr>TokenID = ''old'', UserAgent = [], ReauthFunc = True, Throwaway = False,
      RetryBackoffFunc = False, MaxBackoffRetries = 0, RetryFunc = False, mut = True,
      reauthmut = True, authResult = Some \<lparr>ident = 1, ExtractTokenID = (''old'', None)\<rparr>\<rparr>
     (Some \<lparr>ident = 2, ExtractTokenID = ([], Some (ErrorString ''no token''))\<rparr>)
   = (Some (ErrorString ''no token''),
      \<lparr>TokenID = ''old'', UserAgent = [], ReauthFunc = True, Throwaway = False,
       RetryBackoffFunc = False, MaxBackoffRetries = 0, RetryFunc = False, mut = True,
       reauthmut = True, authResult = Some \<lparr>ident = 1, ExtractTokenID = (''old'', None)\<rparr>\<rparr>)
   \<and>
   SetTokenAndAuthResult
     \<lparr>TokenID = ''old'', UserAgent = [], ReauthFunc = True, Throwaway = False,
      RetryBackoffFunc = False, MaxBackoffRetries = 0, RetryFunc = False, mut = True,
      reauthmut = True, authResult = None\<rparr>
     (Some \<lparr>ident = 3, ExtractTokenID = (''new'', None)\<rparr>)
   = (None,
      \<lparr>TokenID = ''new'', UserAgent = [], ReauthFunc = True, Throwaway = False,
       RetryBackoffFunc = False, MaxBackoffRetries = 0, RetryFunc = False, mut = True,
       reauthmut = True, authResult = Some \<lparr>ident = 3, ExtractTokenID = (''new'', None)\<rparr>\<rparr>)"
  using SetTokenAndAuthResult_atomic
    [of "\<lparr>ident = 2, ExtractTokenID = ([], Some (ErrorString ''no token''))\<rparr>"
        "ErrorString ''no token''"
        "\<lparr>TokenID = ''old'', UserAgent = [], ReauthFunc = True, Throwaway = False,
         RetryBackoffFunc = False, MaxBackoffRetries = 0, RetryFunc = False, mut = True,
         reauthmut = True, authResult = Some \<lparr>ident = 1, ExtractTokenID = (''old'', None)\<rparr>\<rparr>"]
    SetTokenAndAuthResult_atomic
    [of "\<lparr>ident = 3, ExtractTokenID = (''new'', None)\<rparr>" e
        "\<lparr>TokenID = ''old'', UserAgent = [], ReauthFunc = True, Throwaway = False,
         RetryBackoffFunc = False, MaxBackoffRetries = 0, RetryFunc = False, mut = True,
         reauthmut = True, authResult = None\<rparr>"]
  by simp

section \<open>doRequest, one activation at a time\<close>

lemma after_reauthentication_eq [simp]:
  "after_reauthentication e = ErrErrorAfterReauthentication e"
  by (cases e) (simp_all add: after_reauthentication_def)

lemma exec_finish [simp]:
  "ret (finish x evs c o' s) = x" "events (finish x evs c o' s) = evs"
  "client_after (finish x evs c o' s) = c" "options_after (finish x evs c o' s) = o'"
  "state_after (finish x evs c o' s) = s"
  by (simp_all add: finish_def)

lemma exec_after [simp]:
  "ret (after evs x) = ret x" "events (after evs x) = evs @ events x"
  "client_after (after evs x) = client_after x" "options_after (after evs x) = options_after x"
  "state_after (after evs x) = state_after x"
  by (simp_all add: after_def)

lemma dispatched_simps [simp]:
  "OkCodes (dispatched options r) = OkCodes options"
  "JSONResponse (dispatched options r) = JSONResponse options"
  "KeepResponseBody (dispatched options r) = KeepResponseBody options"
  by (simp_all add: dispatched_def)

lemma doRequest_Cons:
  "doRequest client method url options state (r # rs) =
     (case attempt client method url options state r of
        Done x \<Rightarrow> x
      | Again evs client' options' state' w \<Rightarrow>
          after evs (wrapped w (doRequest client' method url options' state' rs)))"
proof (cases "newRequest client method url options r")
  case (Inl e)
  then show ?thesis by (simp add: attempt_def)
next
  case (Inr req)
  note req = this
  show ?thesis
  proof (cases "env_Do r")
    case (Inl err)
    with req show ?thesis
      by (simp add: attempt_def generic_retry_def wrapped_def Let_def split: option.splits)
  next
    case (Inr resp)
    note resp = this
    consider (ok) "ok (okCodes method options) resp"
      | (unauth) "\<not> ok (okCodes method options) resp" "unauthorized client state resp"
      | (rate) "\<not> ok (okCodes method options) resp" "\<not> unauthorized client state resp"
          "rate_limited client state resp"
      | (other) "\<not> ok (okCodes method options) resp" "\<not> unauthorized client state resp"
          "\<not> rate_limited client state resp"
      by blast
    then show ?thesis
    proof cases
      case ok
      with req resp show ?thesis
        by (simp add: attempt_def on_success_def generic_retry_def wrapped_def Let_def
            split: option.splits)
    next
      case unauth
      with req resp show ?thesis
        by (simp add: attempt_def on_failure_def on_unauthorized_def wrapped_def Let_def
            split: option.split prod.split sum.split outcome.split)
    next
      case rate
      with req resp show ?thesis
        by (simp add: attempt_def on_failure_def on_rate_limited_def wrapped_def Let_def
            split: option.splits)
    next
      case other
      with req resp show ?thesis
        by (simp add: attempt_def on_failure_def generic_retry_def wrapped_def Let_def
            split: option.splits)
    qed
  qed
qed

declare doRequest.simps(2) [simp del]

lemmas handler_defs = attempt_def on_failure_def on_success_def on_unauthorized_def
  on_rate_limited_def generic_retry_def

lemma Reauthenticate_config:
  assumes "Reauthenticate c t r = (e, c', called)"
  shows "RetryFunc c' = RetryFunc c" "RetryBackoffFunc c' = RetryBackoffFunc c"
    "MaxBackoffRetries c' = MaxBackoffRetries c" "ReauthFunc c' = ReauthFunc c"
    "Throwaway c' = Throwaway c" "reauthmut c' = reauthmut c" "UserAgent c' = UserAgent c"
  using assms
  by (auto simp: Reauthenticate_def install_def split: if_splits option.splits)

lemma Reauthenticate_called:
  assumes "Reauthenticate c t r = (e, c', called)"
  shows "called = [] \<or> called = [Ev_ReauthFunc]"
  using assms by (auto simp: Reauthenticate_def split: if_splits option.splits)

lemma rewind_Inr:
  assumes "rewind o' r = Inr (o'', sought)"
  shows "(sought = [] \<or> sought = [Ev_Seek])" "OkCodes o'' = OkCodes o'"
    "OmitHeaders o'' = OmitHeaders o'" "MoreHeaders o'' = MoreHeaders o'"
    "JSONBody o'' = JSONBody o'" "JSONResponse o'' = JSONResponse o'"
    "KeepResponseBody o'' = KeepResponseBody o'"
    "(RawBody o'' = None) = (RawBody o' = None)"
  using assms by (auto simp: rewind_def split: if_splits option.splits)

lemma generic_retry_Again:
  assumes "generic_retry c o' st ev err resp r = Again evs c' o'' st' w"
  shows "env_Retry r = None \<and> evs = [ev, Ev_RetryFunc err (retries st + 1)] \<and> c' = c \<and>
         o'' = o' \<and> st' = st\<lparr>retries := retries st + 1\<rparr> \<and> \<not> w"
  using assms by (simp add: generic_retry_def split: option.splits)

lemma on_rate_limited_Again:
  assumes "on_rate_limited c o' st ev rerr resp r = Again evs c' o'' st' w"
  shows "env_Backoff r = None \<and> evs = [ev, Ev_RetryBackoffFunc rerr None (retries st + 1)] \<and>
         c' = c \<and> o'' = o' \<and> st' = st\<lparr>retries := retries st + 1\<rparr> \<and> \<not> w"
  using assms by (simp add: on_rate_limited_def split: option.splits)

lemma on_unauthorized_Again:
  assumes "on_unauthorized c o' st ev tok rerr r = Again evs c' o'' st' w"
  shows "\<exists>called sought. Reauthenticate c tok r = (None, c', called) \<and>
           rewind o' r = Inr (o'', sought) \<and>
           evs = [ev, Ev_Reauthenticate tok] @ called @ sought \<and>
           st' = st\<lparr>hasReauthenticated := True\<rparr> \<and> w"
  using assms
  by (simp add: on_unauthorized_def split: prod.splits option.splits sum.splits)

lemma on_success_Again:
  assumes "on_success c o' st ev resp r = Again evs c' o'' st' w"
  shows "RetryFunc c \<and> env_Retry r = None \<and>
         (\<exists>err. evs = [ev, Ev_RetryFunc err (retries st + 1)]) \<and> c' = c \<and>
         o'' = o' \<and> st' = st\<lparr>retries := retries st + 1\<rparr> \<and> \<not> w"
  using assms
  by (auto simp: on_success_def split: if_splits option.splits dest!: generic_retry_Again)

lemma attempt_Again:
  assumes "attempt c m u o' st r = Again evs c' o'' st' w"
  obtains
    (generic) req err where "newRequest c m u o' r = Inr req" "RetryFunc c" "env_Retry r = None"
      "evs = [Ev_Do req (env_Do r), Ev_RetryFunc err (retries st + 1)]" "c' = c"
      "o'' = dispatched o' r" "st' = st\<lparr>retries := retries st + 1\<rparr>" "\<not> w"
  | (backoff) req resp where "newRequest c m u o' r = Inr req" "env_Do r = Inr resp"
      "\<not> ok (okCodes m o') resp" "\<not> unauthorized c st resp" "rate_limited c st resp"
      "env_Backoff r = None"
      "evs = [Ev_Do req (env_Do r),
              Ev_RetryBackoffFunc (respErr m u (okCodes m o') resp) None (retries st + 1)]"
      "c' = c" "o'' = dispatched o' r" "st' = st\<lparr>retries := retries st + 1\<rparr>" "\<not> w"
  | (reauth) req resp called sought where "newRequest c m u o' r = Inr req" "env_Do r = Inr resp"
      "\<not> ok (okCodes m o') resp" "unauthorized c st resp"
      "Reauthenticate c (Header_Get ''X-Auth-Token'' (req_Header req)) r = (None, c', called)"
      "rewind (dispatched o' r) r = Inr (o'', sought)"
      "evs = [Ev_Do req (env_Do r), Ev_Reauthenticate (Header_Get ''X-Auth-Token'' (req_Header req))]
             @ called @ sought"
      "st' = st\<lparr>hasReauthenticated := True\<rparr>" "w"
proof (cases "newRequest c m u o' r")
  case (Inl e)
  with assms show ?thesis by (simp add: attempt_def)
next
  case (Inr req)
  note req = this
  show ?thesis
  proof (cases "env_Do r")
    case (Inl err)
    with req assms have "RetryFunc c" and
      "generic_retry c (dispatched o' r) st (Ev_Do req (env_Do r)) err None r = Again evs c' o'' st' w"
      by (auto simp: attempt_def split: if_splits)
    with req show ?thesis using generic [of req err] by (auto dest!: generic_retry_Again)
  next
    case (Inr resp)
    note resp = this
    show ?thesis
    proof (cases "ok (okCodes m o') resp")
      case True
      with req resp assms
      have "on_success c (dispatched o' r) st (Ev_Do req (env_Do r)) resp r = Again evs c' o'' st' w"
        by (simp add: attempt_def)
      from on_success_Again [OF this] req show ?thesis using generic [of req] by auto
    next
      case False
      with req resp assms
      have f: "on_failure c (dispatched o' r) st (Ev_Do req (env_Do r))
                 (Header_Get ''X-Auth-Token'' (req_Header req))
                 (respErr m u (okCodes m o') resp) resp r = Again evs c' o'' st' w"
        by (simp add: attempt_def)
      show ?thesis
      proof (cases "unauthorized c st resp")
        case True
        with f have "on_unauthorized c (dispatched o' r) st (Ev_Do req (env_Do r))
                 (Header_Get ''X-Auth-Token'' (req_Header req))
                 (respErr m u (okCodes m o') resp) r = Again evs c' o'' st' w"
          by (simp add: on_failure_def)
        from on_unauthorized_Again [OF this] True False req resp show ?thesis
          using reauth [of req resp] by auto
      next
        case un: False
        show ?thesis
        proof (cases "rate_limited c st resp")
          case True
          with f un have "on_rate_limited c (dispatched o' r) st (Ev_Do req (env_Do r))
                 (respErr m u (okCodes m o') resp) resp r = Again evs c' o'' st' w"
            by (simp add: on_failure_def)
          from on_rate_limited_Again [OF this] True un False req resp show ?thesis
            using backoff [of req resp] by auto
        next
          case rl: False
          with f un have "RetryFunc c" and
            "generic_retry c (dispatched o' r) st (Ev_Do req (env_Do r))
               (ErrUnexpectedResponse (respErr m u (okCodes m o') resp)) (Some resp) r
             = Again evs c' o'' st' w"
            by (auto simp: on_failure_def split: if_splits)
          with req show ?thesis using generic [of req] by (auto dest!: generic_retry_Again)
        qed
      qed
    qed
  qed
qed


lemma generic_retry_Done:
  assumes "generic_retry c o' st ev err resp r = Done x"
  shows "\<exists>e. env_Retry r = Some e \<and>
           x = finish (Return resp (Some e)) [ev, Ev_RetryFunc err (retries st + 1)] c o'
                 (st\<lparr>retries := retries st + 1\<rparr>)"
  using assms by (simp add: generic_retry_def split: option.splits)

lemma on_rate_limited_Done:
  assumes "on_rate_limited c o' st ev rerr resp r = Done x"
  shows "\<exists>e. env_Backoff r = Some e \<and>
           x = finish (Return (Some resp) (Some e))
                 [ev, Ev_RetryBackoffFunc rerr None (retries st + 1)] c o'
                 (st\<lparr>retries := retries st + 1\<rparr>)"
  using assms by (simp add: on_rate_limited_def split: option.splits)

lemma on_unauthorized_Done:
  assumes "on_unauthorized c o' st ev tok rerr r = Done x"
  shows "\<exists>e c' called.
           (Reauthenticate c tok r = (Some e, c', called) \<and>
            x = finish (Return None (Some (ErrUnableToReauthenticate (ErrUnexpectedResponse rerr) e)))
                  ([ev, Ev_Reauthenticate tok] @ called) c' o' st) \<or>
           (Reauthenticate c tok r = (None, c', called) \<and> rewind o' r = Inl e \<and>
            x = finish (Return None (Some e)) ([ev, Ev_Reauthenticate tok] @ called @ [Ev_Seek])
                  c' o' st)"
  using assms
  by (simp add: on_unauthorized_def split: prod.splits option.splits sum.splits)

lemma on_success_Done:
  assumes "on_success c o' st ev resp r = Done x"
  shows "(\<exists>resp' e'. x = finish (Return resp' e') [ev] c o' st) \<or>
         (RetryFunc c \<and>
          (\<exists>err e. x = finish (Return (Some resp) (Some e)) [ev, Ev_RetryFunc err (retries st + 1)]
                          c o' (st\<lparr>retries := retries st + 1\<rparr>)))"
  using assms
  by (auto simp: on_success_def split: if_splits option.splits dest!: generic_retry_Done)

lemma attempt_Done:
  assumes "attempt c m u o' st r = Done x"
  obtains
    (early) e where "newRequest c m u o' r = Inl e" "x = finish (Return None (Some e)) [] c o' st"
  | (plain) req resp' e' where "newRequest c m u o' r = Inr req"
      "x = finish (Return resp' e') [Ev_Do req (env_Do r)] c (dispatched o' r) st"
      "\<forall>resp. env_Do r = Inr resp \<longrightarrow> \<not> ok (okCodes m o') resp \<longrightarrow> \<not> rate_limited c st resp"
  | (aborted) req resp' err e where "newRequest c m u o' r = Inr req" "RetryFunc c"
      "x = finish (Return resp' (Some e)) [Ev_Do req (env_Do r), Ev_RetryFunc err (retries st + 1)]
             c (dispatched o' r) (st\<lparr>retries := retries st + 1\<rparr>)"
  | (reauth_failed) req resp e c' called where "newRequest c m u o' r = Inr req"
      "env_Do r = Inr resp" "\<not> ok (okCodes m o') resp" "unauthorized c st resp"
      "Reauthenticate c (Header_Get ''X-Auth-Token'' (req_Header req)) r = (Some e, c', called)"
      "x = finish (Return None (Some (ErrUnableToReauthenticate
                     (ErrUnexpectedResponse (respErr m u (okCodes m o') resp)) e)))
             ([Ev_Do req (env_Do r),
               Ev_Reauthenticate (Header_Get ''X-Auth-Token'' (req_Header req))] @ called)
             c' (dispatched o' r) st"
  | (seek_failed) req resp e c' called where "newRequest c m u o' r = Inr req"
      "env_Do r = Inr resp" "\<not> ok (okCodes m o') resp" "unauthorized c st resp"
      "Reauthenticate c (Header_Get ''X-Auth-Token'' (req_Header req)) r = (None, c', called)"
      "rewind (dispatched o' r) r = Inl e"
      "x = finish (Return None (Some e))
             ([Ev_Do req (env_Do r),
               Ev_Reauthenticate (Header_Get ''X-Auth-Token'' (req_Header req))] @ called @ [Ev_Seek])
             c' (dispatched o' r) st"
  | (backoff_aborted) req resp e where "newRequest c m u o' r = Inr req"
      "env_Do r = Inr resp" "\<not> ok (okCodes m o') resp" "\<not> unauthorized c st resp"
      "rate_limited c st resp" "env_Backoff r = Some e"
      "x = finish (Return (Some resp) (Some e))
             [Ev_Do req (env_Do r),
              Ev_RetryBackoffFunc (respErr m u (okCodes m o') resp) None (retries st + 1)]
             c (dispatched o' r) (st\<lparr>retries := retries st + 1\<rparr>)"
proof (cases "newRequest c m u o' r")
  case (Inl e)
  with assms show ?thesis using early [of e] by (simp add: attempt_def)
next
  case (Inr req)
  note req = this
  show ?thesis
  proof (cases "env_Do r")
    case (Inl err)
    show ?thesis
    proof (cases "RetryFunc c")
      case True
      with Inl req assms
      have "generic_retry c (dispatched o' r) st (Ev_Do req (env_Do r)) err None r = Done x"
        by (simp add: attempt_def)
      from generic_retry_Done [OF this] True req show ?thesis using aborted [of req] by auto
    next
      case False
      with Inl req assms show ?thesis using plain [of req] by (auto simp: attempt_def)
    qed
  next
    case (Inr resp)
    note resp = this
    show ?thesis
    proof (cases "ok (okCodes m o') resp")
      case True
      with req resp assms
      have "on_success c (dispatched o' r) st (Ev_Do req (env_Do r)) resp r = Done x"
        by (simp add: attempt_def)
      from on_success_Done [OF this] True req resp show ?thesis
        using plain [of req] aborted [of req] by auto
    next
      case False
      with req resp assms
      have f: "on_failure c (dispatched o' r) st (Ev_Do req (env_Do r))
                 (Header_Get ''X-Auth-Token'' (req_Header req))
                 (respErr m u (okCodes m o') resp) resp r = Done x"
        by (simp add: attempt_def)
      show ?thesis
      proof (cases "unauthorized c st resp")
        case True
        with f have "on_unauthorized c (dispatched o' r) st (Ev_Do req (env_Do r))
                 (Header_Get ''X-Auth-Token'' (req_Header req))
                 (respErr m u (okCodes m o') resp) r = Done x"
          by (simp add: on_failure_def)
        from on_unauthorized_Done [OF this] True False req resp show ?thesis
          using reauth_failed [of req resp] seek_failed [of req resp] by auto
      next
        case un: False
        show ?thesis
        proof (cases "rate_limited c st resp")
          case True
          with f un have "on_rate_limited c (dispatched o' r) st (Ev_Do req (env_Do r))
                 (respErr m u (okCodes m o') resp) resp r = Done x"
            by (simp add: on_failure_def)
          from on_rate_limited_Done [OF this] True un False req resp show ?thesis
            using backoff_aborted [of req resp] by auto
        next
          case rl: False
          show ?thesis
          proof (cases "RetryFunc c")
            case True
            with f un rl have
              "generic_retry c (dispatched o' r) st (Ev_Do req (env_Do r))
                 (ErrUnexpectedResponse (respErr m u (okCodes m o') resp)) (Some resp) r = Done x"
              by (simp add: on_failure_def)
            from generic_retry_Done [OF this] True req show ?thesis
              using aborted [of req] by auto
          next
            case False
            with f un rl req resp show ?thesis using plain [of req] by (auto simp: on_failure_def)
          qed
        qed
      qed
    qed
  qed
qed

lemma wrapped_simps [simp]:
  "events (wrapped w x) = events x" "state_after (wrapped w x) = state_after x"
  "client_after (wrapped w x) = client_after x" "options_after (wrapped w x) = options_after x"
  "wrapped False x = x"
  by (simp_all add: wrapped_def split: outcome.splits option.splits)

lemma unauthorized_flag: "unauthorized c st resp \<Longrightarrow> \<not> hasReauthenticated st"
  by (simp add: unauthorized_def)

lemma no_reauth_when_flag:
  "hasReauthenticated state \<Longrightarrow>
   reauthentications (events (doRequest client method url options state script)) = 0"
proof (induction script arbitrary: client options state)
  case Nil
  then show ?case by (simp add: reauthentications_def)
next
  case (Cons r rs)
  show ?case
  proof (cases "attempt client method url options state r")
    case (Done x)
    then show ?thesis using Cons.prems
      by (cases rule: attempt_Done)
        (auto simp: doRequest_Cons Done reauthentications_def dest: unauthorized_flag)
  next
    case (Again evs c' o' st' w)
    then show ?thesis using Cons.prems Cons.IH [of st' c' o']
      by (cases rule: attempt_Again)
        (auto simp: doRequest_Cons Again reauthentications_def dest: unauthorized_flag)
  qed
qed

lemma called_no_Reauthenticate:
  "Reauthenticate c t r = (e, c', called) \<Longrightarrow> filter is_Reauthenticate called = [] \<and> filter is_Do called = [] \<and> filter is_Backoff called = []"
  by (auto dest: Reauthenticate_called)

lemma sought_no_Reauthenticate:
  "rewind o' r = Inr (o'', sought) \<Longrightarrow> filter is_Reauthenticate sought = [] \<and> filter is_Do sought = [] \<and> filter is_Backoff sought = []"
  by (auto dest: rewind_Inr(1))

lemma reauth_at_most_once:
  "reauthentications (events (doRequest client method url options state script)) \<le> 1"
proof (induction script arbitrary: client options state)
  case Nil
  then show ?case by (simp add: reauthentications_def)
next
  case (Cons r rs)
  show ?case
  proof (cases "attempt client method url options state r")
    case (Done x)
    then show ?thesis
      by (cases rule: attempt_Done)
        (auto simp: doRequest_Cons Done reauthentications_def
          dest!: called_no_Reauthenticate)
  next
    case (Again evs c' o' st' w)
    then show ?thesis
    proof (cases rule: attempt_Again)
      case (generic req err)
      then show ?thesis using Cons.IH [of c' o' st']
        by (simp add: doRequest_Cons Again reauthentications_def)
    next
      case (backoff req resp)
      then show ?thesis using Cons.IH [of c' o' st']
        by (simp add: doRequest_Cons Again reauthentications_def)
    next
      case (reauth req resp called sought)
      then show ?thesis
        using no_reauth_when_flag [of st' c' "method" url o' rs]
        by (auto simp: doRequest_Cons Again reauthentications_def
            dest!: called_no_Reauthenticate sought_no_Reauthenticate)
    qed
  qed
qed

lemma flag_kept:
  "hasReauthenticated state \<Longrightarrow>
   hasReauthenticated (state_after (doRequest client method url options state script))"
proof (induction script arbitrary: client options state)
  case Nil
  then show ?case by simp
next
  case (Cons r rs)
  show ?case
  proof (cases "attempt client method url options state r")
    case (Done x)
    then show ?thesis using Cons.prems
      by (cases rule: attempt_Done) (auto simp: doRequest_Cons Done)
  next
    case (Again evs c' o' st' w)
    then show ?thesis using Cons.prems Cons.IH [of st' c' o']
      by (cases rule: attempt_Again) (auto simp: doRequest_Cons Again)
  qed
qed

lemma flag_set_by_reauthentication:
  "hasReauthenticated (state_after (doRequest client method url options state script)) \<Longrightarrow>
   hasReauthenticated state \<or>
   reauthentications (events (doRequest client method url options state script)) = 1"
proof (induction script arbitrary: client options state)
  case Nil
  then show ?case by simp
next
  case (Cons r rs)
  show ?case
  proof (cases "attempt client method url options state r")
    case (Done x)
    then show ?thesis using Cons.prems
      by (cases rule: attempt_Done) (auto simp: doRequest_Cons Done)
  next
    case (Again evs c' o' st' w)
    then show ?thesis
    proof (cases rule: attempt_Again)
      case (generic req err)
      then show ?thesis using Cons.prems Cons.IH [of c' o' st']
        by (simp add: doRequest_Cons Again reauthentications_def)
    next
      case (backoff req resp)
      then show ?thesis using Cons.prems Cons.IH [of c' o' st']
        by (simp add: doRequest_Cons Again reauthentications_def)
    next
      case (reauth req resp called sought)
      then show ?thesis
        using no_reauth_when_flag [of st' c' "method" url o' rs]
        by (auto simp: doRequest_Cons Again reauthentications_def
            dest!: called_no_Reauthenticate sought_no_Reauthenticate)
    qed
  qed
qed

lemma dispatch_after_reauthentication_flag:
  "0 < dispatches_after_reauthentication
         (events (doRequest client method url options state script)) \<Longrightarrow>
   hasReauthenticated (state_after (doRequest client method url options state script))"
proof (induction script arbitrary: client options state)
  case Nil
  then show ?case by (simp add: dispatches_after_reauthentication_def dispatches_def)
next
  case (Cons r rs)
  show ?case
  proof (cases "attempt client method url options state r")
    case (Done x)
    then show ?thesis using Cons.prems
      by (cases rule: attempt_Done)
        (auto simp: doRequest_Cons Done dispatches_after_reauthentication_def dispatches_def
          dest!: called_no_Reauthenticate)
  next
    case (Again evs c' o' st' w)
    then show ?thesis
    proof (cases rule: attempt_Again)
      case (generic req err)
      then show ?thesis using Cons.prems Cons.IH [of c' o' st']
        by (simp add: doRequest_Cons Again dispatches_after_reauthentication_def)
    next
      case (backoff req resp)
      then show ?thesis using Cons.prems Cons.IH [of c' o' st']
        by (simp add: doRequest_Cons Again dispatches_after_reauthentication_def)
    next
      case (reauth req resp called sought)
      then show ?thesis
        using flag_kept [of st' c' "method" url o' rs]
        by (simp add: doRequest_Cons Again)
    qed
  qed
qed

text \<open>
  Claim C2. A logical call reauthenticates at most once. \<^verbatim>\<open>Request\<close> starts
  \<^verbatim>\<open>doRequest\<close> with \<^verbatim>\<open>hasReauthenticated\<close> false; whatever the script answers, the
  run calls \<^verbatim>\<open>Reauthenticate\<close> at most once; an activation that starts with the flag
  set never calls it, however many 401 responses follow; the flag is set at the end of
  every run that dispatched a request after its reauthentication, and a run that ends
  with the flag set has reauthenticated exactly once.
\<close>

theorem Request_reauthenticates_at_most_once:
  "Request client method url options script =
     doRequest client method url options \<lparr>hasReauthenticated = False, retries = 0\<rparr> script \<and>
   reauthentications (events (Request client method url options script)) \<le> 1 \<and>
   (hasReauthenticated state \<longrightarrow>
      reauthentications (events (doRequest client method url options state script)) = 0) \<and>
   (0 < dispatches_after_reauthentication (events (Request client method url options script)) \<longrightarrow>
      hasReauthenticated (state_after (Request client method url options script))) \<and>
   (hasReauthenticated (state_after (Request client method url options script)) \<longrightarrow>
      reauthentications (events (Request client method url options script)) = 1)"
  using reauth_at_most_once [of client "method" url options "\<lparr>hasReauthenticated = False, retries = 0\<rparr>" script]
    no_reauth_when_flag [of state client "method" url options script]
    dispatch_after_reauthentication_flag [of client "method" url options "\<lparr>hasReauthenticated = False, retries = 0\<rparr>" script]
    flag_set_by_reauthentication [of client "method" url options "\<lparr>hasReauthenticated = False, retries = 0\<rparr>" script]
  by (simp add: Request_def)

theorem Request_reauthenticates_at_most_once_witness:
  "hasReauthenticated \<lparr>hasReauthenticated = True, retries = 0\<rparr> \<and>
   reauthentications (events (doRequest sample_client ''GET'' ''/servers'' sample_options
      \<lparr>hasReauthenticated = True, retries = 0\<rparr>
      [answer 401 [], answer 401 [], answer 401 []])) = 0 \<and>
   0 < dispatches_after_reauthentication (events (Request sample_client ''GET'' ''/servers''
      sample_options [answer 401 [], answer 401 [], answer 401 []])) \<and>
   hasReauthenticated (state_after (Request sample_client ''GET'' ''/servers''
      sample_options [answer 401 [], answer 401 [], answer 401 []])) \<and>
   reauthentications (events (Request sample_client ''GET'' ''/servers''
      sample_options [answer 401 [], answer 401 [], answer 401 []])) = 1"
proof -
  have a: "0 < dispatches_after_reauthentication (events (Request sample_client ''GET'' ''/servers''
      sample_options [answer 401 [], answer 401 [], answer 401 []]))"
    by code_simp
  have b: "hasReauthenticated \<lparr>hasReauthenticated = True, retries = 0\<rparr>"
    by simp
  show ?thesis
    using a b Request_reauthenticates_at_most_once [of sample_client "''GET''" "''/servers''"
      sample_options "[answer 401 [], answer 401 [], answer 401 []]"
      "\<lparr>hasReauthenticated = True, retries = 0\<rparr>"]
    by blast
qed

lemma doRequest_reauthenticated:
  assumes "newRequest client method url options r = Inr req"
    and "env_Do r = Inr resp"
    and "\<not> ok (okCodes method options) resp"
    and "unauthorized client state resp"
    and "Reauthenticate client (Header_Get ''X-Auth-Token'' (req_Header req)) r =
           (None, client', called)"
    and "rewind (dispatched options r) r = Inr (options', sought)"
  shows "doRequest client method url options state (r # rs) =
           after ([Ev_Do req (env_Do r),
                   Ev_Reauthenticate (Header_Get ''X-Auth-Token'' (req_Header req))] @ called @ sought)
             (wrapped True (doRequest client' method url options'
                (state\<lparr>hasReauthenticated := True\<rparr>) rs))"
  using assms by (simp add: doRequest_Cons attempt_def on_failure_def on_unauthorized_def)

text \<open>
  Claim C3, as amended. When a 401 triggers a reauthentication that succeeds and the
  retried request then fails with an error \<open>e\<close>, the call returns no response and the
  error \<^verbatim>\<open>ErrErrorAfterReauthentication\<close> whose \<^verbatim>\<open>ErrOriginal\<close> is \<open>e\<close>, the error of the
  retried request. The value holds nothing else: it carries the error of the first
  response only if \<open>e\<close> does.
\<close>

theorem error_after_reauthentication:
  assumes "newRequest client method url options r = Inr req"
    and "env_Do r = Inr resp"
    and "\<not> ok (okCodes method options) resp"
    and "unauthorized client state resp"
    and "Reauthenticate client (Header_Get ''X-Auth-Token'' (req_Header req)) r =
           (None, client', called)"
    and "rewind (dispatched options r) r = Inr (options', sought)"
    and "ret (doRequest client' method url options' (state\<lparr>hasReauthenticated := True\<rparr>) rs) =
           Return resp' (Some e)"
  shows "ret (doRequest client method url options state (r # rs)) =
           Return None (Some (ErrErrorAfterReauthentication e)) \<and>
         ErrOriginal (ErrErrorAfterReauthentication e) = e \<and>
         (carries (ErrErrorAfterReauthentication e) x \<longleftrightarrow>
            x = ErrErrorAfterReauthentication e \<or> carries e x)"
  using assms(7)
  by (simp add: doRequest_reauthenticated [OF assms(1-6)] wrapped_def)

theorem error_after_reauthentication_witness:
  "ret (Request sample_client ''GET'' ''/servers'' sample_options
          [answer 401 ''token expired'', answer 500 ''boom'']) =
     Return None (Some (ErrErrorAfterReauthentication (ErrUnexpectedResponse failure_500)))"
proof -
  let ?r = "answer 401 ''token expired''"
  let ?req = "projr (newRequest sample_client ''GET'' ''/servers'' sample_options ?r)"
  let ?resp = "projr (env_Do ?r)"
  let ?st = "\<lparr>hasReauthenticated = False, retries = 0\<rparr>"
  let ?re = "Reauthenticate sample_client (Header_Get ''X-Auth-Token'' (req_Header ?req)) ?r"
  let ?rw = "projr (rewind (dispatched sample_options ?r) ?r)"
  have 1: "newRequest sample_client ''GET'' ''/servers'' sample_options ?r = Inr ?req"
    by code_simp
  have 2: "env_Do ?r = Inr ?resp" by code_simp
  have 3: "\<not> ok (okCodes ''GET'' sample_options) ?resp" by code_simp
  have 4: "unauthorized sample_client ?st ?resp" by code_simp
  have 5: "?re = (None, fst (snd ?re), snd (snd ?re))" by code_simp
  have 6: "rewind (dispatched sample_options ?r) ?r = Inr (fst ?rw, snd ?rw)" by code_simp
  have 7: "ret (doRequest (fst (snd ?re)) ''GET'' ''/servers'' (fst ?rw)
                  (?st\<lparr>hasReauthenticated := True\<rparr>) [answer 500 ''boom'']) =
           Return (Some (projr (env_Do (answer 500 ''boom''))))
             (Some (ErrUnexpectedResponse failure_500))"
    by code_simp
  from error_after_reauthentication [OF 1 2 3 4 5 6 7]
  show ?thesis by (simp add: Request_def)
qed

theorem error_after_reauthentication_counterexample:
  "ret (Request sample_client ''GET'' ''/servers'' sample_options
          [answer 401 ''token expired'', answer 500 ''boom'']) =
     Return None (Some (ErrErrorAfterReauthentication (ErrUnexpectedResponse failure_500))) \<and>
   \<not> carries (ErrErrorAfterReauthentication (ErrUnexpectedResponse failure_500))
         (ErrUnexpectedResponse unauthorized_401) \<and>
   events (Request sample_client ''GET'' ''/servers'' sample_options
          [answer 401 ''token expired'', answer 500 ''boom'']) =
     [Ev_Do \<lparr>req_Method = ''GET'', req_URL = ''/servers'',
             req_Header = [(''Accept'', [''application/json'']),
                           (''User-Agent'', [''vnpaycloud-console-gophercloud/v2.0.0'']),
                           (''X-Auth-Token'', [''stale''])],
             req_Body = None\<rparr>
        (Inr \<lparr>StatusCode = 401, resp_Header = [], resp_Body = ''token expired''\<rparr>),
      Ev_Reauthenticate ''stale'', Ev_ReauthFunc,
      Ev_Do \<lparr>req_Method = ''GET'', req_URL = ''/servers'',
             req_Header = [(''Accept'', [''application/json'']),
                           (''User-Agent'', [''vnpaycloud-console-gophercloud/v2.0.0'']),
                           (''X-Auth-Token'', [''fresh''])],
             req_Body = None\<rparr>
        (Inr \<lparr>StatusCode = 500, resp_Header = [], resp_Body = ''boom''\<rparr>)]"
  by code_simp

end
